theory Spec2Isabelle
  imports Complex_Main "HOL-Library.Product_Lexorder"
begin

section \<open>Gaze event segmentation: a model of filter\_behavior.py and load\_data.py\<close>

text \<open>
  The Python sources work on numpy arrays of float64 and on dictionaries. In this
  development a one-dimensional array is a list, an \<open>N\<times>2\<close> array is a list of pairs,
  float64 arithmetic is idealised as arithmetic on \<^typ>\<open>real\<close> (no rounding, no
  \<open>inf\<close>, no \<open>nan\<close>), and a dictionary is a map from key strings to values. Every
  exception the code can raise is a value of \<open>py_error\<close>, returned on the left of a sum.
\<close>

subsection \<open>Exceptions and dynamic values\<close>

datatype py_error =
    AssertionError string
  | ValueError
  | KeyError string
  | IndexError
  | TypeError
  | OtherError string

datatype pyval =
    PNone
  | PNum real
  | PInt int
  | PStr string
  | PList "pyval list"
  | PStruct "(string \<times> pyval) list"

type_synonym pydict = "string \<rightharpoonup> pyval"

subsection \<open>The interval primitive of the missing module util\<close>

text \<open>
  An island of a boolean mask is a maximal contiguous run of true samples, given by its
  first and its last index: every sample from \<open>s\<close> to \<open>e\<close> is true, and the run can be
  extended neither to the left nor to the right.
\<close>

definition is_island :: "bool list \<Rightarrow> nat \<Rightarrow> nat \<Rightarrow> bool" where
  "is_island bmask s e \<longleftrightarrow>
     s \<le> e \<and> e < length bmask \<and> list_all (\<lambda>k. bmask ! k) [s..<Suc e] \<and>
     (s = 0 \<or> \<not> bmask ! (s - 1)) \<and> (Suc e = length bmask \<or> \<not> bmask ! Suc e)"

definition index_pairs :: "nat \<Rightarrow> (nat \<times> nat) list" where
  "index_pairs n = concat (map (\<lambda>s. map (Pair s) [s..<n]) [0..<n])"

text \<open>
  Modelled from the spec: \<open>util.find_islands\<close> is not among the sources. The
  specification describes it as returning the maximal contiguous runs of true samples of
  the mask whose length is at least the minimum length, as (start, stop) index pairs with
  the stop index inclusive, and the empty list on the empty mask; the minimum length
  defaults to 1. The islands are listed by increasing start index.
\<close>

definition find_islands :: "bool list \<Rightarrow> int \<Rightarrow> (int \<times> int) list" where
  "find_islands bmask min_length =
     map (\<lambda>(s, e). (int s, int e))
       (filter (\<lambda>(s, e). is_island bmask s e \<and> min_length \<le> int e - int s + 1)
          (index_pairs (length bmask)))"

subsection \<open>numpy.gradient on a one-dimensional array\<close>

text \<open>
  With unit spacing and the default edge order, \<open>numpy.gradient\<close> raises ValueError on
  fewer than two samples, takes one-sided differences at the two ends and central
  differences inside.
\<close>

definition gradient_at :: "real list \<Rightarrow> nat \<Rightarrow> real" where
  "gradient_at f i =
     (if i = 0 then f ! 1 - f ! 0
      else if i = length f - 1 then f ! (length f - 1) - f ! (length f - 2)
      else (f ! (i + 1) - f ! (i - 1)) / 2)"

definition np_gradient :: "real list \<Rightarrow> py_error + real list" where
  "np_gradient f =
     (if length f < 2 then Inl ValueError
      else Inr (map (gradient_at f) [0..<length f]))"

subsection \<open>find\_saccades\<close>

definition vel_norm_at :: "real \<Rightarrow> real \<Rightarrow> real" where
  "vel_norm_at vx vy = sqrt (vx\<^sup>2 + vy\<^sup>2)"

text \<open>
  The smoothing function is an argument of the source function; here it may raise. The
  element-wise sum \<open>vx**2 + vy**2\<close> of two arrays of at least two samples raises
  ValueError when their lengths differ (numpy cannot broadcast them).
\<close>

definition find_saccades ::
  "real list \<Rightarrow> real list \<Rightarrow> real \<Rightarrow> real \<times> real \<Rightarrow> int \<Rightarrow>
   (real list \<Rightarrow> py_error + real list) \<Rightarrow> py_error + (int \<times> int) list" where
  "find_saccades x y sr vel_thresh min_samples smooth_func =
     (if length x \<noteq> length y then Inl (AssertionError ''x.shape == y.shape'')
      else (case smooth_func x of Inl e \<Rightarrow> Inl e | Inr x0 \<Rightarrow>
           (case smooth_func y of Inl e \<Rightarrow> Inl e | Inr y0 \<Rightarrow>
           (case np_gradient x0 of Inl e \<Rightarrow> Inl e | Inr gx \<Rightarrow>
           (case np_gradient y0 of Inl e \<Rightarrow> Inl e | Inr gy \<Rightarrow>
             (let vx = map (\<lambda>g. g / sr) gx;
                  vy = map (\<lambda>g. g / sr) gy
              in if length vx \<noteq> length vy then Inl ValueError
                 else
                   (let vel_norm = map2 vel_norm_at vx vy;
                        above_thresh =
                          map (\<lambda>v. fst vel_thresh \<le> v \<and> v \<le> snd vel_thresh) vel_norm
                    in Inr (find_islands above_thresh min_samples))))))))"

subsection \<open>Dictionary and sequence access\<close>

definition py_bind :: "py_error + 'a \<Rightarrow> ('a \<Rightarrow> py_error + 'b) \<Rightarrow> py_error + 'b" where
  "py_bind m f = (case m of Inl e \<Rightarrow> Inl e | Inr v \<Rightarrow> f v)"

definition getitem :: "pydict \<Rightarrow> string \<Rightarrow> py_error + pyval" where
  "getitem d k = (case d k of None \<Rightarrow> Inl (KeyError k) | Some v \<Rightarrow> Inr v)"

fun subscript :: "pyval \<Rightarrow> nat \<Rightarrow> py_error + pyval" where
  "subscript (PList xs) i = (if i < length xs then Inr (xs ! i) else Inl IndexError)"
| "subscript (PStr cs) i = (if i < length cs then Inr (PStr [cs ! i]) else Inl IndexError)"
| "subscript (PStruct kvs) i = (if i < length kvs then Inr (snd (kvs ! i)) else Inl IndexError)"
| "subscript v i = Inl TypeError"

fun as_real :: "pyval \<Rightarrow> py_error + real" where
  "as_real (PNum r) = Inr r"
| "as_real (PInt i) = Inr (of_int i)"
| "as_real v = Inl TypeError"

text \<open>\<open>range(n)\<close> takes an integer; a negative one gives the empty range.\<close>

fun py_range :: "pyval \<Rightarrow> py_error + nat list" where
  "py_range (PInt n) = Inr [0..<nat n]"
| "py_range v = Inl TypeError"

text \<open>
  Indexing an array with a boolean array keeps the rows at the true positions; numpy
  raises IndexError when the boolean array does not have the length of the indexed axis.
\<close>

definition bool_index :: "'a list \<Rightarrow> bool list \<Rightarrow> py_error + 'a list" where
  "bool_index xs bs =
     (if length bs \<noteq> length xs then Inl IndexError
      else Inr (map fst (filter snd (zip xs bs))))"

text \<open>
  A slice \<open>xs[start:stop]\<close> with Python's treatment of negative and of too large
  bounds.
\<close>

definition py_slice :: "'a list \<Rightarrow> int \<Rightarrow> int \<Rightarrow> 'a list" where
  "py_slice xs start stop =
     (let n = int (length xs);
          a = (if start < 0 then max (start + n) 0 else min start n);
          b = (if stop < 0 then max (stop + n) 0 else min stop n)
      in drop (nat a) (take (nat b) xs))"

subsection \<open>extract\_saccade\_positions\<close>

type_synonym position = "real \<times> real"

definition extract_saccade_positions ::
  "position list \<Rightarrow> (int \<times> int) list \<Rightarrow> position list list" where
  "extract_saccade_positions run_positions saccade_start_stops =
     map (\<lambda>(start, stop). py_slice run_positions start (stop + 1)) saccade_start_stops"

subsection \<open>extract\_saccades\_with\_labels\<close>

text \<open>
  The modules \<open>defaults\<close> and \<open>util\<close> are not among the sources. The dictionary that
  \<open>defaults.fetch_default_saccade_pars\<close> returns and the functions
  \<open>util.create_timevec\<close> and \<open>util.px2deg\<close> are parameters of the model.
\<close>

record saccade_pars =
  vel_thresh :: "real \<times> real"
  min_samples :: int
  smooth_func :: "real list \<Rightarrow> py_error + real list"

record util_funs =
  create_timevec :: "nat \<Rightarrow> real \<Rightarrow> real list"
  px2deg :: "real list \<Rightarrow> real list"

type_synonym session = "position list \<times> pydict"

type_synonym label = "pyval \<times> nat \<times> nat"

definition run_time_mask :: "real list \<Rightarrow> real \<Rightarrow> real \<Rightarrow> bool list" where
  "run_time_mask time_vec run_start run_stop =
     map (\<lambda>t. t > run_start \<and> t \<le> run_stop) time_vec"

text \<open>The samples of one run: lines 216 to 219 of filter\_behavior.py.\<close>

definition run_positions_of ::
  "pydict \<Rightarrow> position list \<Rightarrow> real list \<Rightarrow> nat \<Rightarrow> py_error + position list" where
  "run_positions_of info positions time_vec run =
     py_bind (getitem info ''startS'') (\<lambda>starts.
     py_bind (subscript starts run) (\<lambda>start_val.
     py_bind (getitem info ''stopS'') (\<lambda>stops.
     py_bind (subscript stops run) (\<lambda>stop_val.
     py_bind (as_real start_val) (\<lambda>run_start.
     py_bind (as_real stop_val) (\<lambda>run_stop.
       bool_index positions (run_time_mask time_vec run_start run_stop)))))))"

text \<open>The saccades of one run: lines 216 to 223.\<close>

definition saccades_in_run ::
  "saccade_pars \<Rightarrow> util_funs \<Rightarrow> pydict \<Rightarrow> position list \<Rightarrow> real list \<Rightarrow> real \<Rightarrow> nat \<Rightarrow>
   py_error + position list list" where
  "saccades_in_run pars util info positions time_vec sampling_rate run =
     py_bind (run_positions_of info positions time_vec run) (\<lambda>run_positions.
       (let run_x = px2deg util (map fst run_positions);
            run_y = px2deg util (map snd run_positions)
        in py_bind (find_saccades run_x run_y sampling_rate (vel_thresh pars)
                      (min_samples pars) (smooth_func pars)) (\<lambda>saccade_start_stops.
             Inr (extract_saccade_positions run_positions saccade_start_stops))))"

text \<open>
  The loop over the runs of a session; \<open>body\<close> computes the saccades of a run. The
  accumulator holds the two output lists.
\<close>

fun run_loop ::
  "(nat \<Rightarrow> py_error + position list list) \<Rightarrow> pyval \<Rightarrow> nat \<Rightarrow> nat list \<Rightarrow>
   position list list \<times> label list \<Rightarrow> py_error + position list list \<times> label list" where
  "run_loop body category session_identifier [] acc = Inr acc"
| "run_loop body category session_identifier (run # runs) acc =
     (case body run of
        Inl e \<Rightarrow> Inl e
      | Inr in_run \<Rightarrow>
          run_loop body category session_identifier runs
            (fst acc @ in_run,
             snd acc @ replicate (length in_run) (category, session_identifier, run)))"

text \<open>
  The body of the loop over the sessions, lines 208 to 227, for the session with the
  counter value \<open>session_identifier\<close>. A sampling rate that is not a number is taken to
  raise TypeError where the time vector is built.
\<close>

definition process_session ::
  "saccade_pars \<Rightarrow> util_funs \<Rightarrow> nat \<Rightarrow> session \<Rightarrow> position list list \<times> label list \<Rightarrow>
   py_error + position list list \<times> label list" where
  "process_session pars util session_identifier session acc =
     (let positions = fst session; info = snd session
      in py_bind (getitem info ''sampling_rate'') (\<lambda>rate_val.
         py_bind (as_real rate_val) (\<lambda>sampling_rate.
           (let n_samples = length positions;
                time_vec = create_timevec util n_samples sampling_rate
            in py_bind (getitem info ''category'') (\<lambda>category.
               py_bind (getitem info ''num_runs'') (\<lambda>n_runs.
               py_bind (py_range n_runs) (\<lambda>runs.
                 run_loop (saccades_in_run pars util info positions time_vec sampling_rate)
                   category session_identifier runs acc)))))))"

fun session_loop ::
  "saccade_pars \<Rightarrow> util_funs \<Rightarrow> nat \<Rightarrow> session list \<Rightarrow> position list list \<times> label list \<Rightarrow>
   py_error + position list list \<times> label list" where
  "session_loop pars util session_identifier [] acc = Inr acc"
| "session_loop pars util session_identifier (session # sessions) acc =
     (case process_session pars util (session_identifier + 1) session acc of
        Inl e \<Rightarrow> Inl e
      | Inr acc' \<Rightarrow> session_loop pars util (session_identifier + 1) sessions acc')"

definition extract_saccades_with_labels ::
  "saccade_pars \<Rightarrow> util_funs \<Rightarrow> session list \<Rightarrow>
   py_error + position list list \<times> label list" where
  "extract_saccades_with_labels pars util labelled_gaze_positions =
     py_bind (session_loop pars util 0 labelled_gaze_positions ([], [])) (\<lambda>(saccades, saccade_labels).
       if length saccades \<noteq> length saccade_labels
       then Inl (AssertionError ''len(saccades) == len(saccade_labels)'')
       else Inr (saccades, saccade_labels))"

text \<open>
  What a returned result is compared with: the runs, the category and the sampling rate
  that a session's dictionary holds, the saccades detected in one run of the session
  (none if the computation of the run raises), and the labels that belong to them for a
  given session ordinal.
\<close>

definition runs_of :: "session \<Rightarrow> nat list" where
  "runs_of session =
     (case snd session ''num_runs'' of Some (PInt n) \<Rightarrow> [0..<nat n] | _ \<Rightarrow> [])"

definition category_of :: "session \<Rightarrow> pyval" where
  "category_of session = (case snd session ''category'' of Some c \<Rightarrow> c | None \<Rightarrow> PNone)"

definition rate_of :: "session \<Rightarrow> real" where
  "rate_of session =
     (case snd session ''sampling_rate'' of
        Some (PNum r) \<Rightarrow> r | Some (PInt i) \<Rightarrow> of_int i | _ \<Rightarrow> 0)"

definition detected_in_run ::
  "saccade_pars \<Rightarrow> util_funs \<Rightarrow> session \<Rightarrow> nat \<Rightarrow> position list list" where
  "detected_in_run pars util session run =
     (case saccades_in_run pars util (snd session) (fst session)
             (create_timevec util (length (fst session)) (rate_of session))
             (rate_of session) run of
        Inl e \<Rightarrow> [] | Inr found \<Rightarrow> found)"

definition saccades_of_session ::
  "saccade_pars \<Rightarrow> util_funs \<Rightarrow> session \<Rightarrow> position list list" where
  "saccades_of_session pars util session =
     concat (map (detected_in_run pars util session) (runs_of session))"

definition labels_of_session ::
  "saccade_pars \<Rightarrow> util_funs \<Rightarrow> nat \<Rightarrow> session \<Rightarrow> label list" where
  "labels_of_session pars util ordinal session =
     concat (map (\<lambda>run. replicate (length (detected_in_run pars util session run))
                          (category_of session, ordinal, run))
               (runs_of session))"

text \<open>
  A small session for worked examples: three samples at one sample per second, one run
  from time 0 to time 2, no smoothing, pixels taken as degrees, and a velocity band that
  holds the single velocity 5.
\<close>

definition example_pars :: saccade_pars where
  "example_pars = \<lparr>vel_thresh = (5, 5), min_samples = 1, smooth_func = Inr\<rparr>"

definition example_util :: util_funs where
  "example_util =
     \<lparr>create_timevec = (\<lambda>n rate. map (\<lambda>i. real i / rate) [0..<n]), px2deg = (\<lambda>v. v)\<rparr>"

definition example_info :: pydict where
  "example_info =
     [''sampling_rate'' \<mapsto> PNum 1, ''category'' \<mapsto> PNum 2, ''num_runs'' \<mapsto> PInt 1,
      ''startS'' \<mapsto> PList [PNum 0], ''stopS'' \<mapsto> PList [PNum 2]]"

definition example_session :: session where
  "example_session = ([(7, 7), (0, 0), (3, 4)], example_info)"

subsection \<open>get\_unique\_doses\<close>






subsection \<open>extract\_fixations\_with\_labels\<close>

text \<open>
  The module \<open>fix\<close> is not among the sources: \<open>fix.is_fixation\<close> is a parameter, and so
  is \<open>util.px2deg\<close> on a whole position array. \<open>util.find_islands\<close> is called with its
  default minimum length 1.
\<close>

record fix_funs =
  px2deg_positions :: "position list \<Rightarrow> position list"
  is_fixation :: "position list \<Rightarrow> real list \<Rightarrow> real \<Rightarrow> bool list"

text \<open>The loop over the fixation intervals, lines 261 and 262; the rest of its body is comment.\<close>

fun fixation_loop :: "pydict \<Rightarrow> (int \<times> int) list \<Rightarrow> py_error + unit" where
  "fixation_loop info [] = Inr ()"
| "fixation_loop info (start_stop # fixation_indices) =
     (case getitem info ''session'' of
        Inl e \<Rightarrow> Inl e
      | Inr session \<Rightarrow> fixation_loop info fixation_indices)"

text \<open>
  The body of the loop over the sessions, lines 249 to 262. \<open>n_runs - 1\<close> needs a number.
\<close>

definition process_fixation_session ::
  "util_funs \<Rightarrow> fix_funs \<Rightarrow> session \<Rightarrow> py_error + unit" where
  "process_fixation_session util fx session =
     (let positions = fst session; info = snd session
      in py_bind (getitem info ''sampling_rate'') (\<lambda>rate_val.
         py_bind (as_real rate_val) (\<lambda>sampling_rate.
           (let n_samples = length positions;
                time_vec = create_timevec util n_samples sampling_rate
            in py_bind (getitem info ''category'') (\<lambda>category.
               py_bind (getitem info ''num_runs'') (\<lambda>n_runs.
               py_bind (as_real n_runs) (\<lambda>runs_number.
                 (let n_intervals = runs_number - 1;
                      fix_vec_entire_session =
                        is_fixation fx (px2deg_positions fx positions) time_vec sampling_rate;
                      fixation_indices = find_islands fix_vec_entire_session 1
                  in fixation_loop info fixation_indices))))))))"

text \<open>The function returns nothing: its result, when it does not raise, is \<open>None\<close>.\<close>

fun extract_fixations_with_labels ::
  "util_funs \<Rightarrow> fix_funs \<Rightarrow> session list \<Rightarrow> py_error + unit" where
  "extract_fixations_with_labels util fx [] = Inr ()"
| "extract_fixations_with_labels util fx (session # sessions) =
     (case process_fixation_session util fx session of
        Inl e \<Rightarrow> Inl e
      | Inr u \<Rightarrow> extract_fixations_with_labels util fx sessions)"

subsection \<open>Reading .mat files\<close>

text \<open>
  The file system and \<open>scipy.io.loadmat\<close> are inputs of the model: \<open>glob\<close> gives the
  paths that match a pattern, \<open>loadmat\<close> gives the variables of a file or the exception
  it raises, and \<open>session_name_of\<close> stands for
  \<open>os.path.basename(os.path.normpath(session_path))\<close>. A numpy record is a \<open>PStruct\<close>,
  an array is a \<open>PList\<close>.
\<close>

record file_system =
  glob :: "string \<Rightarrow> string list"
  loadmat :: "string \<Rightarrow> py_error + pydict"
  session_name_of :: "string \<Rightarrow> string"

datatype log_line =
    Print_warning string string
  | Print_error string string py_error

definition dict_get :: "pydict \<Rightarrow> string \<Rightarrow> pyval \<Rightarrow> pyval" where
  "dict_get d k otherwise = (case d k of None \<Rightarrow> otherwise | Some v \<Rightarrow> v)"

text \<open>Access to a field of a record by its name.\<close>

fun field :: "pyval \<Rightarrow> string \<Rightarrow> py_error + pyval" where
  "field (PStruct kvs) k = (case map_of kvs k of None \<Rightarrow> Inl ValueError | Some v \<Rightarrow> Inr v)"
| "field PNone k = Inl TypeError"
| "field v k = Inl IndexError"

text \<open>\<open>float(v)\<close>: a number, or an array of one element that is one.\<close>

fun py_float :: "pyval \<Rightarrow> py_error + real" where
  "py_float (PNum r) = Inr r"
| "py_float (PInt i) = Inr (of_int i)"
| "py_float (PList [v]) = py_float v"
| "py_float (PStr cs) = Inl ValueError"
| "py_float v = Inl TypeError"

fun iterate :: "pyval \<Rightarrow> py_error + pyval list" where
  "iterate (PList xs) = Inr xs"
| "iterate (PStr cs) = Inr (map (\<lambda>c. PStr [c]) cs)"
| "iterate (PStruct kvs) = Inr (map snd kvs)"
| "iterate v = Inl TypeError"

text \<open>A list comprehension whose element expression may raise.\<close>

fun comprehension :: "('a \<Rightarrow> py_error + 'b) \<Rightarrow> 'a list \<Rightarrow> py_error + 'b list" where
  "comprehension f [] = Inr []"
| "comprehension f (x # xs) =
     (case f x of
        Inl e \<Rightarrow> Inl e
      | Inr y \<Rightarrow> (case comprehension f xs of Inl e \<Rightarrow> Inl e | Inr ys \<Rightarrow> Inr (y # ys)))"

text \<open>\<open>run[name][0][0]\<close>\<close>

definition run_field :: "string \<Rightarrow> pyval \<Rightarrow> py_error + pyval" where
  "run_field name run =
     py_bind (field run name) (\<lambda>a. py_bind (subscript a 0) (\<lambda>b. subscript b 0))"

definition update :: "pydict \<Rightarrow> (string \<times> pyval) list \<Rightarrow> pydict" where
  "update d kvs = d ++ map_of (rev kvs)"

subsection \<open>extract\_meta\_info\<close>

definition none_dose_fields :: "(string \<times> pyval) list" where
  "none_dose_fields =
     [(''monkey_1'', PNone), (''monkey_2'', PNone), (''OT_dose'', PNone), (''NAL_dose'', PNone)]"

definition none_run_fields :: "(string \<times> pyval) list" where
  "none_run_fields = [(''startS'', PNone), (''stopS'', PNone), (''num_runs'', PInt 0)]"

definition none_bbox_fields :: "(string \<times> pyval) list" where
  "none_bbox_fields =
     [(''eye_bbox'', PNone), (''face_bbox'', PNone), (''left_obj_bbox'', PNone),
      (''right_obj_bbox'', PNone)]"

text \<open>The body of the first \<open>try\<close>, lines 40 to 51: what it passes to \<open>meta_info.update\<close>.\<close>

definition load_info :: "file_system \<Rightarrow> string \<Rightarrow> py_error + (string \<times> pyval) list" where
  "load_info fs file_path_info =
     py_bind (loadmat fs file_path_info) (\<lambda>data_info.
     py_bind (subscript (dict_get data_info ''info'' PNone) 0) (\<lambda>row.
     py_bind (subscript row 0) (\<lambda>info.
       if info \<noteq> PNone then
         py_bind (field info ''monkey_1'') (\<lambda>m1.
         py_bind (subscript m1 0) (\<lambda>monkey_1.
         py_bind (field info ''monkey_2'') (\<lambda>m2.
         py_bind (subscript m2 0) (\<lambda>monkey_2.
         py_bind (field info ''OT_dose'') (\<lambda>ot.
         py_bind (subscript ot 0) (\<lambda>ot0.
         py_bind (py_float ot0) (\<lambda>OT_dose.
         py_bind (field info ''NAL_dose'') (\<lambda>nal.
         py_bind (subscript nal 0) (\<lambda>nal0.
         py_bind (py_float nal0) (\<lambda>NAL_dose.
           Inr [(''monkey_1'', monkey_1), (''monkey_2'', monkey_2),
                (''OT_dose'', PNum OT_dose), (''NAL_dose'', PNum NAL_dose)]))))))))))
       else Inr none_dose_fields)))"

text \<open>The body of the second \<open>try\<close>, lines 61 to 69.\<close>

definition load_runs :: "file_system \<Rightarrow> string \<Rightarrow> py_error + (string \<times> pyval) list" where
  "load_runs fs file_path_runs =
     py_bind (loadmat fs file_path_runs) (\<lambda>data_runs.
       (let runs = dict_get data_runs ''runs'' PNone
        in if runs \<noteq> PNone then
             py_bind (subscript runs 0) (\<lambda>runs0.
             py_bind (iterate runs0) (\<lambda>run_list.
             py_bind (comprehension (run_field ''startS'') run_list) (\<lambda>startS.
             py_bind (comprehension (run_field ''stopS'') run_list) (\<lambda>stopS.
               Inr [(''startS'', PList startS), (''stopS'', PList stopS),
                    (''num_runs'', PInt (int (length startS)))]))))
           else Inr none_run_fields))"

text \<open>
  The body of the third \<open>try\<close>, lines 79 to 87. \<open>util.calculate_roi_bounding_boxes\<close> is
  not among the sources and is the parameter \<open>boxes\<close>.
\<close>

definition load_landmarks ::
  "file_system \<Rightarrow> (pyval \<Rightarrow> py_error + pyval \<times> pyval \<times> pyval \<times> pyval) \<Rightarrow> string \<Rightarrow>
   py_error + (string \<times> pyval) list" where
  "load_landmarks fs boxes file_path =
     py_bind (loadmat fs file_path) (\<lambda>data_m1_landmarks.
       (let m1_landmarks = dict_get data_m1_landmarks ''farPlaneCal'' PNone
        in if m1_landmarks \<noteq> PNone then
             py_bind (boxes m1_landmarks) (\<lambda>(eye_bbox, face_bbox, left_obj_bbox, right_obj_bbox).
               Inr [(''eye_bbox'', eye_bbox), (''face_bbox'', face_bbox),
                    (''left_obj_bbox'', left_obj_bbox), (''right_obj_bbox'', right_obj_bbox)])
           else Inr none_bbox_fields))"

text \<open>
  One of the three blocks of the loop body: exactly one matching file is loaded inside a
  \<open>try\<close> whose handler catches every exception, prints it and substitutes the empty
  fields; no file or several files print a warning and substitute the empty fields. The
  result is the update of the dictionary and what is printed.
\<close>

definition guarded_block ::
  "string list \<Rightarrow> (string \<Rightarrow> py_error + (string \<times> pyval) list) \<Rightarrow> (string \<times> pyval) list \<Rightarrow>
   string \<Rightarrow> string \<Rightarrow> string \<Rightarrow> (string \<times> pyval) list \<times> log_line list" where
  "guarded_block file_list load empty_fields error_text warning_text session_path =
     (if length file_list = 1 then
        (case load (file_list ! 0) of
           Inr new_fields \<Rightarrow> (new_fields, [])
         | Inl e \<Rightarrow> (empty_fields, [Print_error error_text session_path e]))
      else (empty_fields, [Print_warning warning_text session_path]))"

text \<open>The body of the loop over the session paths, lines 32 to 94.\<close>

definition meta_info_of ::
  "file_system \<Rightarrow> (pyval \<Rightarrow> py_error + pyval \<times> pyval \<times> pyval \<times> pyval) \<Rightarrow> string \<Rightarrow>
   pydict \<times> log_line list" where
  "meta_info_of fs boxes session_path =
     (let session_name = session_name_of fs session_path;
          meta_info = [''session_name'' \<mapsto> PStr session_name];
          file_list_info = glob fs (session_path @ ''/*metaInfo.mat'');
          file_list_runs = glob fs (session_path @ ''/*runs.mat'');
          file_list_m1_landmarks = glob fs (session_path @ ''/*M1_farPlaneCal.mat'');
          dose = guarded_block file_list_info (load_info fs) none_dose_fields
                   ''Error loading meta_info for folder'' ''No metaInfo found in folder''
                   session_path;
          runs = guarded_block file_list_runs (load_runs fs) none_run_fields
                   ''Error loading runs for folder'' ''No runs found in folder'' session_path;
          bbox = guarded_block file_list_m1_landmarks (load_landmarks fs boxes) none_bbox_fields
                   ''Error loading m1_landmarks for folder'' ''No m1_landmarks found in folder''
                   session_path
      in (update (update (update meta_info (fst dose)) (fst runs)) (fst bbox),
          snd dose @ snd runs @ snd bbox))"

fun extract_meta_info ::
  "file_system \<Rightarrow> (pyval \<Rightarrow> py_error + pyval \<times> pyval \<times> pyval \<times> pyval) \<Rightarrow> string list \<Rightarrow>
   pydict list \<times> log_line list" where
  "extract_meta_info fs boxes [] = ([], [])"
| "extract_meta_info fs boxes (session_path # session_paths) =
     (let this = meta_info_of fs boxes session_path;
          others = extract_meta_info fs boxes session_paths
      in (fst this # fst others, snd this @ snd others))"

subsection \<open>get\_runs\_data of load\_data.py\<close>

text \<open>
  The body of the \<open>try\<close>, lines 83 to 88: the dictionary it returns, or \<open>None\<close> when it
  falls through to the \<open>return {}\<close> after the handler.
\<close>

definition load_runs_data :: "file_system \<Rightarrow> string \<Rightarrow> py_error + pydict option" where
  "load_runs_data fs file_path_runs =
     py_bind (loadmat fs file_path_runs) (\<lambda>data_runs.
     py_bind (subscript (dict_get data_runs ''runs'' (PList [PNone])) 0) (\<lambda>runs.
       if runs \<noteq> PNone then
         py_bind (iterate runs) (\<lambda>run_list.
         py_bind (comprehension (run_field ''startS'') run_list) (\<lambda>startS.
         py_bind (comprehension (run_field ''stopS'') run_list) (\<lambda>stopS.
           Inr (Some [''startS'' \<mapsto> PList startS, ''stopS'' \<mapsto> PList stopS,
                      ''num_runs'' \<mapsto> PInt (int (length startS))]))))
       else Inr None))"

definition get_runs_data :: "file_system \<Rightarrow> string \<Rightarrow> pydict \<times> log_line list" where
  "get_runs_data fs session_path =
     (let file_list_runs = glob fs (session_path @ ''/*runs.mat'')
      in if length file_list_runs \<noteq> 1
         then (Map.empty, [Print_warning ''No runs found in folder'' session_path])
         else (case load_runs_data fs (file_list_runs ! 0) of
                 Inr (Some runs_dict) \<Rightarrow> (runs_dict, [])
               | Inr None \<Rightarrow> (Map.empty, [])
               | Inl e \<Rightarrow>
                   (Map.empty, [Print_error ''Error loading runs for folder'' session_path e])))"

section \<open>Properties\<close>

subsection \<open>Islands\<close>

lemma set_index_pairs: "set (index_pairs n) = {(s, e). s \<le> e \<and> e < n}"
  by (fastforce simp: index_pairs_def)

lemma find_islands_iff:
  "(s, e) \<in> set (find_islands bmask k) \<longleftrightarrow>
     (\<exists>a b. s = int a \<and> e = int b \<and> is_island bmask a b \<and> k \<le> e - s + 1)"
  by (auto simp: find_islands_def set_index_pairs is_island_def)

lemma find_islands_bounds:
  "(s, e) \<in> set (find_islands bmask k) \<Longrightarrow>
   0 \<le> s \<and> s \<le> e \<and> e < int (length bmask)"
  by (auto simp: find_islands_iff is_island_def)

lemma find_islands_Nil: "find_islands [] k = []"
  by (simp add: find_islands_def index_pairs_def)

lemma sqrt_25: "sqrt 25 = 5"
  by (rule real_sqrt_unique) simp_all

subsection \<open>Sequences\<close>

lemma drop_take_nths: "drop a (take b xs) = map (\<lambda>i. xs ! i) [a..<min b (length xs)]"
proof (rule nth_equalityI)
  show "length (drop a (take b xs)) = length (map (\<lambda>i. xs ! i) [a..<min b (length xs)])"
    by (simp add: min.commute)
next
  fix i assume "i < length (drop a (take b xs))"
  then have "a + i < min b (length xs)" by (simp add: min_def split: if_splits)
  then show "drop a (take b xs) ! i = map (\<lambda>i. xs ! i) [a..<min b (length xs)] ! i"
    by (auto simp: min_def split: if_splits)
qed

lemma map_upto_nat:
  assumes "0 \<le> s"
  shows "map (\<lambda>i. f (nat i)) [s..t] = map f [nat s..<nat (t + 1)]"
proof (rule nth_equalityI)
  show "length (map (\<lambda>i. f (nat i)) [s..t]) = length (map f [nat s..<nat (t + 1)])"
    using assms by auto
next
  fix k assume "k < length (map (\<lambda>i. f (nat i)) [s..t])"
  then have k: "s + int k \<le> t" by auto
  then have k': "nat s + k < nat (t + 1)" using assms by linarith
  have "map (\<lambda>i. f (nat i)) [s..t] ! k = f (nat (s + int k))"
    using nth_upto [OF k] k by simp
  also have "\<dots> = f (nat s + k)"
    using assms by (simp add: nat_add_distrib)
  also have "\<dots> = map f [nat s..<nat (t + 1)] ! k"
    using k' by (simp del: upt_Suc)
  finally show "map (\<lambda>i. f (nat i)) [s..t] ! k = map f [nat s..<nat (t + 1)] ! k" .
qed

lemma py_slice_inclusive:
  assumes "0 \<le> s" and "0 \<le> e"
  shows "py_slice xs s (e + 1) = map (\<lambda>i. xs ! nat i) [s..min e (int (length xs) - 1)]"
proof -
  have "py_slice xs s (e + 1) = map (\<lambda>i. xs ! i) [nat (min s (int (length xs)))..<min (nat (min (e + 1) (int (length xs)))) (length xs)]"
    using assms by (simp add: py_slice_def Let_def drop_take_nths)
  also have "\<dots> = map (\<lambda>i. xs ! i) [nat s..<nat (min e (int (length xs) - 1) + 1)]"
    using assms by (auto simp: min_def)
  also have "\<dots> = map (\<lambda>i. xs ! nat i) [s..min e (int (length xs) - 1)]"
    using assms by (simp add: map_upto_nat)
  finally show ?thesis .
qed

lemma bool_index_filter:
  "length bs = length xs \<Longrightarrow>
   map fst (filter snd (zip xs bs)) = map (\<lambda>i. xs ! i) (filter (\<lambda>i. bs ! i) [0..<length xs])"
proof (induction xs arbitrary: bs rule: rev_induct)
  case Nil
  then show ?case by simp
next
  case (snoc x xs)
  then obtain b bs' where bs: "bs = bs' @ [b]" "length bs' = length xs"
    by (cases bs rule: rev_cases) auto
  have "filter (\<lambda>i. (bs' @ [b]) ! i) [0..<length xs] = filter (\<lambda>i. bs' ! i) [0..<length xs]"
    using bs(2) by (intro filter_cong) (auto simp: nth_append)
  moreover have "map (\<lambda>i. (xs @ [x]) ! i) (filter (\<lambda>i. bs' ! i) [0..<length xs]) = map (\<lambda>i. xs ! i) (filter (\<lambda>i. bs' ! i) [0..<length xs])"
    by (intro map_cong) (auto simp: nth_append)
  ultimately show ?case
    using snoc.IH[of bs'] bs by (auto simp: nth_append)
qed

subsection \<open>The loops of extract\_saccades\_with\_labels\<close>

lemma py_bind_Inl [simp]: "py_bind (Inl e) f = Inl e"
  by (simp add: py_bind_def)

lemma py_bind_Inr [simp]: "py_bind (Inr v) f = f v"
  by (simp add: py_bind_def)

lemma py_bind_eq_Inr: "py_bind m f = Inr r \<longleftrightarrow> (\<exists>v. m = Inr v \<and> f v = Inr r)"
  by (cases m) simp_all

lemma getitem_eq_Inr: "getitem d k = Inr v \<longleftrightarrow> d k = Some v"
  by (simp add: getitem_def split: option.splits)

lemma run_loop_Inr:
  "run_loop body c sid runs acc = Inr acc' \<Longrightarrow>
   fst acc' = fst acc @ concat (map (\<lambda>run. case body run of Inl e \<Rightarrow> [] | Inr found \<Rightarrow> found) runs) \<and>
   snd acc' = snd acc @ concat (map (\<lambda>run. replicate (length (case body run of Inl e \<Rightarrow> [] | Inr found \<Rightarrow> found)) (c, sid, run)) runs)"
proof (induction runs arbitrary: acc)
  case Nil
  then show ?case by simp
next
  case (Cons run runs)
  then obtain found where f: "body run = Inr found"
    by (cases "body run") simp_all
  with Cons.prems have "run_loop body c sid runs (fst acc @ found, snd acc @ replicate (length found) (c, sid, run)) = Inr acc'"
    by simp
  from Cons.IH [OF this] f show ?case by simp
qed

lemma process_session_Inr:
  assumes "process_session pars util sid session acc = Inr acc'"
  shows "fst acc' = fst acc @ saccades_of_session pars util session \<and>
         snd acc' = snd acc @ labels_of_session pars util sid session"
proof -
  from assms obtain rate_val sr c n_runs runs where
    rv: "snd session ''sampling_rate'' = Some rate_val" and
    sr: "as_real rate_val = Inr sr" and
    c: "snd session ''category'' = Some c" and
    nr: "snd session ''num_runs'' = Some n_runs" and
    runs: "py_range n_runs = Inr runs" and
    loop: "run_loop (saccades_in_run pars util (snd session) (fst session)
              (create_timevec util (length (fst session)) sr) sr) c sid runs acc = Inr acc'"
    by (auto simp: process_session_def Let_def py_bind_eq_Inr getitem_eq_Inr)
  have rate: "rate_of session = sr"
    using rv sr by (cases rate_val) (simp_all add: rate_of_def)
  have ro: "runs_of session = runs"
    using nr runs by (cases n_runs) (simp_all add: runs_of_def)
  have co: "category_of session = c"
    using c by (simp add: category_of_def)
  have det: "detected_in_run pars util session =
      (\<lambda>run. case saccades_in_run pars util (snd session) (fst session)
                    (create_timevec util (length (fst session)) sr) sr run of
               Inl e \<Rightarrow> [] | Inr found \<Rightarrow> found)"
    by (rule ext) (simp add: detected_in_run_def rate)
  from run_loop_Inr [OF loop] show ?thesis
    by (simp add: saccades_of_session_def labels_of_session_def det ro co)
qed

lemma session_loop_Inr:
  "session_loop pars util sid sessions acc = Inr acc' \<Longrightarrow>
   fst acc' = fst acc @ concat (map (saccades_of_session pars util) sessions) \<and>
   snd acc' = snd acc @
     concat (map (\<lambda>(i, s). labels_of_session pars util (Suc i) s) (enumerate sid sessions))"
proof (induction sessions arbitrary: sid acc)
  case Nil
  then show ?case by simp
next
  case (Cons s sessions)
  then obtain acc1 where a1: "process_session pars util (sid + 1) s acc = Inr acc1"
    by (cases "process_session pars util (sid + 1) s acc") simp_all
  with Cons.prems have "session_loop pars util (sid + 1) sessions acc1 = Inr acc'"
    by simp
  from Cons.IH [OF this] process_session_Inr [OF a1] show ?case by simp
qed

lemma length_labels_of_session:
  "length (labels_of_session pars util ordinal s) = length (saccades_of_session pars util s)"
  by (simp add: labels_of_session_def saccades_of_session_def length_concat comp_def)

lemma length_concat_labels:
  "length (concat (map (\<lambda>(i, s). labels_of_session pars util (Suc i) s) (enumerate sid sessions))) =
   length (concat (map (saccades_of_session pars util) sessions))"
  by (induction sessions arbitrary: sid) (simp_all add: length_labels_of_session)

lemma saccades_in_run_slices:
  assumes "saccades_in_run pars util info positions time_vec sr run = Inr found"
  shows "\<exists>run_positions start_stops.
           run_positions_of info positions time_vec run = Inr run_positions \<and>
           find_saccades (px2deg util (map fst run_positions))
             (px2deg util (map snd run_positions)) sr (vel_thresh pars) (min_samples pars)
             (smooth_func pars) = Inr start_stops \<and>
           found = map (\<lambda>(s, e). map (\<lambda>i. run_positions ! nat i)
                                  [s..min e (int (length run_positions) - 1)]) start_stops"
proof -
  from assms obtain rp ss where
    rp: "run_positions_of info positions time_vec run = Inr rp" and
    ss: "find_saccades (px2deg util (map fst rp)) (px2deg util (map snd rp)) sr
           (vel_thresh pars) (min_samples pars) (smooth_func pars) = Inr ss" and
    f: "found = extract_saccade_positions rp ss"
    by (auto simp: saccades_in_run_def Let_def py_bind_eq_Inr)
  from ss obtain bm where "ss = find_islands bm (min_samples pars)"
    by (auto simp: find_saccades_def Let_def split: sum.splits if_splits)
  then have "\<forall>p \<in> set ss. 0 \<le> fst p \<and> 0 \<le> snd p"
    using find_islands_bounds by fastforce
  then have "extract_saccade_positions rp ss =
      map (\<lambda>(s, e). map (\<lambda>i. rp ! nat i) [s..min e (int (length rp) - 1)]) ss"
    by (auto simp: extract_saccade_positions_def py_slice_inclusive)
  with rp ss f show ?thesis by blast
qed

subsection \<open>Rows and buckets of get\_unique\_doses\<close>




lemma fold_update_length [simp]:
  "length (fold (\<lambda>j cats. cats[j := v]) idx cats) = length cats"
  by (induction idx arbitrary: cats) simp_all









subsection \<open>The example session\<close>

lemma ex_islands: "find_islands [True, True] 1 = [(0, 1)]"
  by code_simp

lemma ex_find: "find_saccades [0, 3] [0, 4] 1 (5, 5) 1 Inr = Inr [(0, 1)]"
  by (simp add: find_saccades_def np_gradient_def gradient_at_def vel_norm_at_def sqrt_25 upt_rec ex_islands)

lemma ex_run_positions:
  "run_positions_of example_info [(7, 7), (0, 0), (3, 4)] [0, 1, 2] 0 = Inr [(0, 0), (3, 4)]"
  by (simp add: run_positions_of_def example_info_def getitem_def bool_index_def run_time_mask_def)

lemma ex_saccades_in_run:
  "saccades_in_run example_pars example_util example_info [(7, 7), (0, 0), (3, 4)] [0, 1, 2] 1 0
     = Inr [[(0, 0), (3, 4)]]"
  by (simp add: saccades_in_run_def ex_run_positions example_pars_def example_util_def ex_find
      extract_saccade_positions_def py_slice_def)

lemma ex_process_session:
  "process_session example_pars example_util ordinal example_session acc =
     Inr (fst acc @ [[(0, 0), (3, 4)]], snd acc @ [(PNum 2, ordinal, 0)])"
proof -
  have tv: "create_timevec example_util (Suc (Suc (Suc 0))) 1 = [0, 1, 2]"
    by (simp add: example_util_def upt_rec)
  have info: "example_info ''sampling_rate'' = Some (PNum 1)"
    "example_info ''category'' = Some (PNum 2)" "example_info ''num_runs'' = Some (PInt 1)"
    by (simp_all add: example_info_def)
  show ?thesis
    by (simp add: process_session_def example_session_def tv getitem_def info
        ex_saccades_in_run)
qed

lemma ex_extract:
  "extract_saccades_with_labels example_pars example_util [example_session] =
     Inr ([[(0, 0), (3, 4)]], [(PNum 2, 1, 0)])"
  by (simp add: extract_saccades_with_labels_def ex_process_session)

lemma ex_extract_two:
  "extract_saccades_with_labels example_pars example_util [example_session, example_session] =
     Inr ([[(0, 0), (3, 4)], [(0, 0), (3, 4)]], [(PNum 2, 1, 0), (PNum 2, 2, 0)])"
  by (simp add: extract_saccades_with_labels_def ex_process_session)

subsection \<open>Shape check of find\_saccades\<close>

text \<open>
  Claim C7. When \<open>x\<close> and \<open>y\<close> differ in length, \<open>find_saccades\<close> fails with the
  assertion error of its shape check, whatever the smoothing function, the sampling rate,
  the thresholds and the minimum length are: the smoothing function is never consulted,
  so nothing is computed before the failure and no result is substituted.
\<close>

theorem find_saccades_shape_mismatch:
  "length x \<noteq> length y \<Longrightarrow>
   find_saccades x y sr thresh min_len smooth =
     Inl (AssertionError ''x.shape == y.shape'')"
  by (simp add: find_saccades_def)

theorem find_saccades_shape_mismatch_witness:
  "length [1, 2 :: real] \<noteq> length [1 :: real] \<and>
   find_saccades [1, 2] [1] 1 (0, 1) 1 (\<lambda>v. Inl TypeError) =
     Inl (AssertionError ''x.shape == y.shape'')"
  using find_saccades_shape_mismatch [of "[1, 2]" "[1]" 1 "(0, 1)" 1 "\<lambda>v. Inl TypeError"]
  by simp

subsection \<open>The algorithm of find\_saccades\<close>

text \<open>
  Claim C2. For sequences \<open>x\<close> and \<open>y\<close> of equal length and a sampling rate other than
  zero, \<open>find_saccades\<close> returns \<open>r\<close> exactly when the smoothing function returns
  smoothed sequences of one common length of at least two samples, and \<open>r\<close> is the list
  of islands of at least the minimum number of samples of the mask that marks sample \<open>i\<close> when
  the Euclidean norm of the two gradients at \<open>i\<close>, each divided by the sampling rate, lies
  in the closed interval from \<open>lo\<close> to \<open>hi\<close>.
\<close>

theorem find_saccades_algorithm:
  assumes "length x = length y" and "sr \<noteq> 0"
  shows "find_saccades x y sr (lo, hi) min_len smooth = Inr r \<longleftrightarrow>
     (\<exists>x0 y0. smooth x = Inr x0 \<and> smooth y = Inr y0 \<and>
        2 \<le> length x0 \<and> length y0 = length x0 \<and>
        r = find_islands
              (map (\<lambda>i. lo \<le> sqrt ((gradient_at x0 i / sr)\<^sup>2 + (gradient_at y0 i / sr)\<^sup>2) \<and>
                        sqrt ((gradient_at x0 i / sr)\<^sup>2 + (gradient_at y0 i / sr)\<^sup>2) \<le> hi)
                 [0..<length x0])
              min_len)"
  using assms(1)
  by (auto simp: find_saccades_def np_gradient_def vel_norm_at_def Let_def map2_map_map
      comp_def split: sum.splits if_splits)

theorem find_saccades_algorithm_witness:
  "length [0, 3 :: real] = length [0, 4 :: real] \<and> (1 :: real) \<noteq> 0 \<and>
   find_saccades [0, 3] [0, 4] 1 (5, 5) 1 Inr = Inr [(0, 1)]"
proof -
  have isl: "find_islands [True, True] 1 = [(0, 1)]"
    by code_simp
  have "find_saccades [0, 3] [0, 4] 1 (5, 5) 1 Inr = Inr [(0, 1)] \<longleftrightarrow>
     (\<exists>x0 y0. Inr [0, 3 :: real] = (Inr x0 :: py_error + real list) \<and>
        Inr [0, 4 :: real] = (Inr y0 :: py_error + real list) \<and>
        2 \<le> length x0 \<and> length y0 = length x0 \<and>
        [(0, 1)] = find_islands
              (map (\<lambda>i. 5 \<le> sqrt ((gradient_at x0 i / 1)\<^sup>2 + (gradient_at y0 i / 1)\<^sup>2) \<and>
                        sqrt ((gradient_at x0 i / 1)\<^sup>2 + (gradient_at y0 i / 1)\<^sup>2) \<le> 5)
                 [0..<length x0])
              1)"
    by (rule find_saccades_algorithm) simp_all
  then show ?thesis
    by (simp add: gradient_at_def sqrt_25 upt_rec isl)
qed

subsection \<open>find\_saccades on empty input\<close>

text \<open>
  Claim C8, as amended. On zero-length \<open>x\<close> and \<open>y\<close>, with a smoothing function that
  returns the empty sequence for the empty sequence, \<open>find_saccades\<close> raises the
  ValueError of \<open>numpy.gradient\<close>, which needs at least two samples; no list of intervals
  is returned.
\<close>

theorem find_saccades_empty_input:
  "smooth [] = Inr [] \<Longrightarrow>
   find_saccades [] [] sr thresh min_len smooth = Inl ValueError"
  by (simp add: find_saccades_def np_gradient_def)

theorem find_saccades_empty_input_witness:
  "(Inr [] :: py_error + real list) = Inr [] \<and>
   find_saccades [] [] 1 (0, 1) 1 Inr = Inl ValueError"
  using find_saccades_empty_input [of Inr 1 "(0, 1)" 1]
  by simp

text \<open>
  The claim as the specification states it, an empty list of intervals and no error, fails
  with the identity as smoothing function.
\<close>

theorem find_saccades_empty_input_counterexample:
  "find_saccades [] [] 1 (0, 1) 1 Inr \<noteq> Inr []"
  by (simp add: find_saccades_def np_gradient_def)

subsection \<open>The length invariant of extract\_saccades\_with\_labels\<close>

text \<open>
  Claim C1. On the empty session list \<open>extract_saccades_with_labels\<close> returns two empty
  lists. On every session list its result is the result of the loop over the sessions:
  the assertion that closes the function never fails, because the two accumulated lists
  have the same length whenever the loop completes. So every returned pair of saccades
  and labels has components of equal length.
\<close>

theorem extract_saccades_lengths_agree:
  "extract_saccades_with_labels pars util [] = Inr ([], []) \<and>
   extract_saccades_with_labels pars util sessions =
     session_loop pars util 0 sessions ([], []) \<and>
   (\<forall>saccades labels.
      extract_saccades_with_labels pars util sessions = Inr (saccades, labels) \<longrightarrow>
      length saccades = length labels)"
proof (intro conjI allI impI)
  show "extract_saccades_with_labels pars util [] = Inr ([], [])"
    by (simp add: extract_saccades_with_labels_def)
next
  fix saccades labels
  assume "extract_saccades_with_labels pars util sessions = Inr (saccades, labels)"
  then show "length saccades = length labels"
    by (auto simp: extract_saccades_with_labels_def py_bind_eq_Inr split: if_splits)
next
  show "extract_saccades_with_labels pars util sessions =
          session_loop pars util 0 sessions ([], [])"
  proof (cases "session_loop pars util 0 sessions ([], [])")
    case (Inl e)
    then show ?thesis by (simp add: extract_saccades_with_labels_def)
  next
    case (Inr acc')
    from session_loop_Inr [OF Inr] have "length (fst acc') = length (snd acc')"
      by (simp add: length_concat_labels)
    then show ?thesis using Inr
      by (cases acc') (simp add: extract_saccades_with_labels_def)
  qed
qed

theorem extract_saccades_lengths_agree_witness:
  "extract_saccades_with_labels example_pars example_util [example_session] =
     Inr ([[(0, 0), (3, 4)]], [(PNum 2, 1, 0)]) \<and>
   length [[(0 :: real, 0 :: real), (3, 4)]] = length [(PNum 2, 1 :: nat, 0 :: nat)]"
  using extract_saccades_lengths_agree [of example_pars example_util "[example_session]"]
    ex_extract
  by simp

subsection \<open>The samples of a run\<close>

text \<open>
  Claim C4. When the session's dictionary holds the start time and the stop time of a run
  and the time vector has one entry per sample, the samples selected for the run are, in
  order, those at the indices whose time is greater than the start time and at most the
  stop time. With the time vector 0, 1, 2, 3, 4, start 1 and stop 3 these are the samples
  at indices 2 and 3.
\<close>

theorem run_positions_window:
  assumes "info ''startS'' = Some (PList starts)" and "info ''stopS'' = Some (PList stops)"
    and "run < length starts" and "run < length stops"
    and "as_real (starts ! run) = Inr run_start" and "as_real (stops ! run) = Inr run_stop"
    and "length time_vec = length positions"
  shows "run_positions_of info positions time_vec run =
           Inr (map (\<lambda>i. positions ! i)
                  (filter (\<lambda>i. run_start < time_vec ! i \<and> time_vec ! i \<le> run_stop)
                     [0..<length positions])) \<and>
         bool_index [p0, p1, p2, p3, p4 :: position] (run_time_mask [0, 1, 2, 3, 4] 1 3) = Inr [p2, p3]"
proof
  have "bool_index positions (run_time_mask time_vec run_start run_stop) =
          Inr (map (\<lambda>i. positions ! i)
                 (filter (\<lambda>i. run_time_mask time_vec run_start run_stop ! i)
                    [0..<length positions]))"
    using assms(7) by (simp add: bool_index_def run_time_mask_def bool_index_filter)
  also have "filter (\<lambda>i. run_time_mask time_vec run_start run_stop ! i) [0..<length positions] =
             filter (\<lambda>i. run_start < time_vec ! i \<and> time_vec ! i \<le> run_stop)
               [0..<length positions]"
    using assms(7) by (intro filter_cong) (auto simp: run_time_mask_def)
  finally show "run_positions_of info positions time_vec run =
           Inr (map (\<lambda>i. positions ! i)
                  (filter (\<lambda>i. run_start < time_vec ! i \<and> time_vec ! i \<le> run_stop)
                     [0..<length positions]))"
    using assms(1-6) by (simp add: run_positions_of_def getitem_def)
next
  show "bool_index [p0, p1, p2, p3, p4 :: position] (run_time_mask [0, 1, 2, 3, 4] 1 3) = Inr [p2, p3]"
    by (simp add: bool_index_def run_time_mask_def)
qed

theorem run_positions_window_witness:
  "example_info ''startS'' = Some (PList [PNum 0]) \<and>
   example_info ''stopS'' = Some (PList [PNum 2]) \<and>
   (0 :: nat) < length [PNum 0] \<and> (0 :: nat) < length [PNum 2] \<and>
   as_real ([PNum 0] ! 0) = Inr 0 \<and> as_real ([PNum 2] ! 0) = Inr 2 \<and>
   length [0, 1, 2 :: real] = length [(7 :: real, 7 :: real), (0, 0), (3, 4)] \<and>
   run_positions_of example_info [(7, 7), (0, 0), (3, 4)] [0, 1, 2] 0 = Inr [(0, 0), (3, 4)]"
proof -
  have a: "example_info ''startS'' = Some (PList [PNum 0])"
    and b: "example_info ''stopS'' = Some (PList [PNum 2])"
    by (simp_all add: example_info_def)
  have "run_positions_of example_info [(7, 7), (0, 0), (3, 4)] [0, 1, 2] 0 =
           Inr (map (\<lambda>i. [(7 :: real, 7 :: real), (0, 0), (3, 4)] ! i)
                  (filter (\<lambda>i. (0 :: real) < [0, 1, 2] ! i \<and> [0, 1, 2 :: real] ! i \<le> 2)
                     [0..<length [(7 :: real, 7 :: real), (0, 0), (3, 4)]]))"
    using run_positions_window [OF a b, of 0 0 2 "[0, 1, 2]" "[(7, 7), (0, 0), (3, 4)]"]
    by simp
  then show ?thesis using a b by (simp add: upt_rec)
qed

subsection \<open>Labels\<close>

text \<open>
  Claim C5. When \<open>extract_saccades_with_labels\<close> returns, the saccades are the saccades
  detected in the runs of the sessions, session after session and run after run, and the
  labels are, in the same order, one triple of category, session ordinal and run index
  for each detected saccade, where the ordinal of the session at position \<open>i\<close> of the
  input list (counted from zero) is \<open>i + 1\<close>, whatever its category is.
\<close>

theorem labels_follow_sessions:
  assumes "extract_saccades_with_labels pars util sessions = Inr (saccades, labels)"
  shows "saccades = concat (map (saccades_of_session pars util) sessions) \<and>
         labels = concat (map (\<lambda>(i, s). labels_of_session pars util (Suc i) s)
                            (enumerate 0 sessions))"
  using assms session_loop_Inr [of pars util 0 sessions "([], [])"]
  by (auto simp: extract_saccades_with_labels_def py_bind_eq_Inr split: if_splits)

theorem labels_follow_sessions_witness:
  "extract_saccades_with_labels example_pars example_util [example_session, example_session] =
     Inr ([[(0, 0), (3, 4)], [(0, 0), (3, 4)]], [(PNum 2, 1, 0), (PNum 2, 2, 0)]) \<and>
   [[(0, 0), (3, 4)], [(0, 0), (3, 4)]] =
     concat (map (saccades_of_session example_pars example_util)
               [example_session, example_session]) \<and>
   [(PNum 2, 1, 0), (PNum 2, 2, 0)] =
     concat (map (\<lambda>(i, s). labels_of_session example_pars example_util (Suc i) s)
               (enumerate 0 [example_session, example_session]))"
  using labels_follow_sessions [OF ex_extract_two] ex_extract_two
  by blast

subsection \<open>Slices of the run positions\<close>

text \<open>
  Claim C6. For index pairs that are not negative, \<open>extract_saccade_positions\<close> returns
  for every pair the samples of the position array from the start index to the stop index,
  the stop index included (as far as the array reaches). In
  \<open>extract_saccades_with_labels\<close> the array that is sliced is the array of the positions
  selected for the run, as they came in, and not the sequences converted to degrees and
  smoothed from which the index pairs are computed.
\<close>

theorem saccades_slice_run_positions:
  "((\<forall>p \<in> set pairs. 0 \<le> fst p \<and> 0 \<le> snd p) \<longrightarrow>
      extract_saccade_positions ps pairs =
        map (\<lambda>(s, e). map (\<lambda>i. ps ! nat i) [s..min e (int (length ps) - 1)]) pairs) \<and>
   (saccades_in_run pars util info positions time_vec sr run = Inr found \<longrightarrow>
      (\<exists>run_positions start_stops.
           run_positions_of info positions time_vec run = Inr run_positions \<and>
           find_saccades (px2deg util (map fst run_positions))
             (px2deg util (map snd run_positions)) sr (vel_thresh pars) (min_samples pars)
             (smooth_func pars) = Inr start_stops \<and>
           found = map (\<lambda>(s, e). map (\<lambda>i. run_positions ! nat i)
                                  [s..min e (int (length run_positions) - 1)]) start_stops))"
  using saccades_in_run_slices
  by (auto simp: extract_saccade_positions_def py_slice_inclusive)

theorem saccades_slice_run_positions_witness:
  "0 \<le> fst (1 :: int, 2 :: int) \<and> 0 \<le> snd (1 :: int, 2 :: int) \<and>
   extract_saccade_positions [(0, 0), (1, 1), (2, 2), (3, 3)] [(1, 2)] = [[(1, 1), (2, 2)]] \<and>
   saccades_in_run example_pars example_util example_info [(7, 7), (0, 0), (3, 4)] [0, 1, 2] 1 0 =
     Inr [[(0, 0), (3, 4)]]"
  using saccades_slice_run_positions [of "[(1, 2)]" "[(0, 0), (1, 1), (2, 2), (3, 3)]"
      example_pars example_util example_info "[(7, 7), (0, 0), (3, 4)]" "[0, 1, 2]" 1 0
      "[[(0, 0), (3, 4)]]"] ex_saccades_in_run
  by (simp add: upto_rec1)


subsection \<open>Dose categories\<close>




end
